theory Spec2Isabelle
  imports
    Complex_Main
    "HOL-Library.AList"
    "HOL-Library.Char_ord"
    "HOL-Library.List_Lexorder"
    "HOL-Library.Multiset"
begin

section \<open>Python values, exceptions and dictionaries\<close>

text \<open>
  The script \<^verbatim>\<open>.github/scripts/generate_report.py\<close> parses YCSB result files into nested
  dictionaries, expands latency histograms, selects the databases to plot and writes a
  Markdown table. Every \<^verbatim>\<open>raise\<close> of the Python is a value \<open>Inl e\<close> of the model.
\<close>

datatype exc = ValueError | KeyError | AttributeError | TypeError | OSError

text \<open>
  The values the script stores in a section dictionary: \<^verbatim>\<open>None\<close>, a float, or the list
  of \<^verbatim>\<open>(latency_value, count)\<close> tuples. The float type \<open>'f\<close> and the conversions
  \<^verbatim>\<open>float(str)\<close>, \<^verbatim>\<open>int(str)\<close>, \<^verbatim>\<open>bool(float)\<close> and \<^verbatim>\<open>format(float)\<close> are builtins of
  the interpreter, not of the script; the functions below take them as parameters
  (\<open>None\<close> stands for the builtin raising \<^verbatim>\<open>ValueError\<close>).
\<close>

datatype 'f pyval = PNone | PFloat 'f | PList "(int \<times> int) list"

text \<open>
  A \<^verbatim>\<open>dict\<close> is an association list with distinct keys in insertion order:
  \<^verbatim>\<open>d[k]\<close> is \<open>getitem\<close> (\<^verbatim>\<open>KeyError\<close> on a missing key), \<^verbatim>\<open>d[k] = v\<close> is
  \<^const>\<open>AList.update\<close>, which overwrites in place or appends, as Python does.
\<close>

type_synonym 'f section_dict = "(string \<times> 'f pyval) list"
type_synonym 'f metrics_dict = "(string \<times> 'f section_dict) list"

definition getitem :: "('k \<times> 'v) list \<Rightarrow> 'k \<Rightarrow> exc + 'v" where
  "getitem d k = (case map_of d k of None \<Rightarrow> Inl KeyError | Some v \<Rightarrow> Inr v)"

section \<open>String builtins\<close>

text \<open>
  Strings are lists of 8-bit characters read as the code points 0..255. \<open>isspace\<close> and
  \<open>isdigit\<close> are \<^verbatim>\<open>str.isspace\<close> and \<^verbatim>\<open>str.isdigit\<close> on that range (the latter is also
  true of the superscript digits U+00B2, U+00B3 and U+00B9).
\<close>

definition isspace :: "char \<Rightarrow> bool" where
  "isspace c = ((of_char c :: nat) \<in> {9, 10, 11, 12, 13, 28, 29, 30, 31, 32, 133, 160})"

definition isdigit :: "char \<Rightarrow> bool" where
  "isdigit c = ((48 \<le> (of_char c :: nat) \<and> (of_char c :: nat) \<le> 57)
     \<or> (of_char c :: nat) \<in> {178, 179, 185})"

definition strip :: "string \<Rightarrow> string" where
  "strip s = rev (dropWhile isspace (rev (dropWhile isspace s)))"

definition startswith :: "string \<Rightarrow> string \<Rightarrow> bool" where
  "startswith s p = (take (length p) s = p)"

text \<open>
  \<^verbatim>\<open>s.split(sep)\<close> for a non-empty separator (both call sites pass a literal one): the
  text is cut at every occurrence of \<open>sep\<close>, scanning from the left without overlap.
  \<open>acc\<close> is the current field, reversed.
\<close>

fun split_from :: "string \<Rightarrow> string \<Rightarrow> string \<Rightarrow> string list" where
  "split_from sep acc [] = [rev acc]"
| "split_from sep acc (c # cs) =
     (if startswith (c # cs) sep
      then rev acc # split_from sep [] (drop (length sep - 1) cs)
      else split_from sep (c # acc) cs)"

definition split :: "string \<Rightarrow> string \<Rightarrow> string list" where
  "split s sep = split_from sep [] s"

text \<open>\<^verbatim>\<open>s[1:-1]\<close>: the string without its first and last character.\<close>

definition slice_1_m1 :: "string \<Rightarrow> string" where
  "slice_1_m1 s = butlast (tl s)"

section \<open>The parser: \<^verbatim>\<open>parse_ycsb_output\<close>\<close>

text \<open>The dictionary \<^verbatim>\<open>metrics\<close> as initialised on lines 8 to 16.\<close>

definition section_init :: "'f section_dict" where
  "section_init =
     [(''Operations'', PNone), (''AverageLatency(us)'', PNone), (''MinLatency(us)'', PNone),
      (''MaxLatency(us)'', PNone), (''95thPercentileLatency(us)'', PNone),
      (''99thPercentileLatency(us)'', PNone), (''Return=OK'', PNone),
      (''LatencyDistribution'', PList [])]"

definition metrics_init :: "'f metrics_dict" where
  "metrics_init =
     [(''OVERALL'', [(''RunTime(ms)'', PNone), (''Throughput(ops/sec)'', PNone)]),
      (''UPDATE'', section_init),
      (''READ'', section_init)]"

text \<open>The loop state: \<^verbatim>\<open>current_section\<close> and \<^verbatim>\<open>metrics\<close>.\<close>

record 'f pstate =
  current_section :: "string option"
  metrics :: "'f metrics_dict"

definition pstate_init :: "'f pstate" where
  "pstate_init = \<lparr>current_section = None, metrics = metrics_init\<rparr>"

text \<open>
  \<^verbatim>\<open>metrics[sect][key] = v\<close>, the right-hand side already evaluated: the outer lookup
  raises \<^verbatim>\<open>KeyError\<close> when \<open>sect\<close> is not a key; the inner dictionary is updated in
  place.
\<close>

definition store_metric ::
  "'f metrics_dict \<Rightarrow> string \<Rightarrow> string \<Rightarrow> 'f pyval \<Rightarrow> exc + 'f metrics_dict" where
  "store_metric m sect key v =
     (case getitem m sect of
        Inl e \<Rightarrow> Inl e
      | Inr d \<Rightarrow> Inr (AList.update sect (AList.update key v d) m))"

text \<open>
  \<^verbatim>\<open>latency_value, count = map(int, line.split(','))\<close>: the lazy \<^verbatim>\<open>map\<close> is unpacked
  into two names. Too few or too many fields and a field that \<^verbatim>\<open>int\<close> rejects all raise
  \<^verbatim>\<open>ValueError\<close> (a third field is converted before the length is found wrong, and
  both outcomes are \<^verbatim>\<open>ValueError\<close>).
\<close>

definition unpack_int_pair :: "(string \<Rightarrow> int option) \<Rightarrow> string list \<Rightarrow> exc + (int \<times> int)" where
  "unpack_int_pair pint toks =
     (case toks of
        [a, b] \<Rightarrow>
          (case pint a of
             None \<Rightarrow> Inl ValueError
           | Some x \<Rightarrow> (case pint b of None \<Rightarrow> Inl ValueError | Some y \<Rightarrow> Inr (x, y)))
      | _ \<Rightarrow> Inl ValueError)"

text \<open>
  \<^verbatim>\<open>metrics[current_section]['LatencyDistribution'].append((latency_value, count))\<close>:
  a float stored under that key by an earlier section line has no \<^verbatim>\<open>append\<close>.
\<close>

definition append_latency :: "'f metrics_dict \<Rightarrow> string \<Rightarrow> int \<times> int \<Rightarrow> exc + 'f metrics_dict" where
  "append_latency m sect p =
     (case getitem m sect of
        Inl e \<Rightarrow> Inl e
      | Inr d \<Rightarrow>
          (case getitem d ''LatencyDistribution'' of
             Inl e \<Rightarrow> Inl e
           | Inr (PList xs) \<Rightarrow>
               Inr (AList.update sect (AList.update ''LatencyDistribution'' (PList (xs @ [p])) d) m)
           | Inr _ \<Rightarrow> Inl AttributeError))"

text \<open>The test of line 34 on the stripped line (without \<^verbatim>\<open>current_section and\<close>).\<close>

definition histogram_shaped :: "string \<Rightarrow> bool" where
  "histogram_shaped line =
     (startswith line ''0,'' \<or> startswith line ''>1000''
      \<or> (line \<noteq> [] \<and> isdigit (hd line) \<and> CHR '','' \<in> set line))"

text \<open>Truthiness of \<^verbatim>\<open>current_section\<close>: neither \<^verbatim>\<open>None\<close> nor the empty string.\<close>

definition section_truthy :: "string option \<Rightarrow> bool" where
  "section_truthy cs = (case cs of None \<Rightarrow> False | Some s \<Rightarrow> s \<noteq> [])"

text \<open>The body of the \<^verbatim>\<open>for\<close> loop, lines 23 to 41, on one line of the file.\<close>

definition process_line ::
  "(string \<Rightarrow> 'f option) \<Rightarrow> (string \<Rightarrow> int option) \<Rightarrow> 'f pstate \<Rightarrow> string \<Rightarrow> exc + 'f pstate" where
  "process_line pfloat pint st raw =
     (let line = strip raw in
      if startswith line ''[OVERALL]'' then
        (let parts = split line '', '' in
         if length parts = 3 then
           (case pfloat (parts ! 1) of
              None \<Rightarrow> Inl ValueError
            | Some rt \<Rightarrow>
                (case store_metric (metrics st) ''OVERALL'' ''RunTime(ms)'' (PFloat rt) of
                   Inl e \<Rightarrow> Inl e
                 | Inr m1 \<Rightarrow>
                     (case pfloat (parts ! 2) of
                        None \<Rightarrow> Inl ValueError
                      | Some tp \<Rightarrow>
                          (case store_metric m1 ''OVERALL'' ''Throughput(ops/sec)'' (PFloat tp) of
                             Inl e \<Rightarrow> Inl e
                           | Inr m2 \<Rightarrow> Inr (st\<lparr>metrics := m2\<rparr>)))))
         else Inr st)
      else if startswith line ''[UPDATE]'' \<or> startswith line ''[READ]'' then
        (let sect = slice_1_m1 (hd (split line '', ''));
             parts = split line '', '' in
         if length parts \<ge> 3 then
           (case pfloat (parts ! 2) of
              None \<Rightarrow> Inl ValueError
            | Some v \<Rightarrow>
                (case store_metric (metrics st) sect (parts ! 1) (PFloat v) of
                   Inl e \<Rightarrow> Inl e
                 | Inr m1 \<Rightarrow> Inr \<lparr>current_section = Some sect, metrics = m1\<rparr>))
         else Inr (st\<lparr>current_section := Some sect\<rparr>))
      else if section_truthy (current_section st) \<and> histogram_shaped line then
        (if current_section st \<in> {Some ''UPDATE'', Some ''READ''} then
           (case unpack_int_pair pint (split line '','') of
              Inl e \<Rightarrow> Inr st
            | Inr p \<Rightarrow>
                (case append_latency (metrics st) (the (current_section st)) p of
                   Inl e \<Rightarrow> Inl e
                 | Inr m1 \<Rightarrow> Inr (st\<lparr>metrics := m1\<rparr>)))
         else Inr st)
      else Inr st)"

text \<open>The \<^verbatim>\<open>for\<close> loop over the lines: the first exception leaves the loop.\<close>

fun process_lines ::
  "(string \<Rightarrow> 'f option) \<Rightarrow> (string \<Rightarrow> int option) \<Rightarrow> 'f pstate \<Rightarrow> string list \<Rightarrow> exc + 'f pstate" where
  "process_lines pfloat pint st [] = Inr st"
| "process_lines pfloat pint st (l # ls) =
     (case process_line pfloat pint st l of
        Inl e \<Rightarrow> Inl e
      | Inr st' \<Rightarrow> process_lines pfloat pint st' ls)"

text \<open>
  What \<^verbatim>\<open>open(filepath, 'r')\<close> and the iteration over the file give: no such file
  (\<^verbatim>\<open>FileNotFoundError\<close>), another exception while opening or reading, or the lines.
\<close>

datatype file_status = NoSuchFile | Unreadable exc | Readable "string list"

text \<open>What the script prints, the interpolated exception text left abstract.\<close>

datatype message =
    Processing string string
  | WarnFileNotFound string
  | WarnErrorParsing string exc
  | NoUpdateData
  | PlotGenerated string
  | ReportGenerated string
  | SetOutput string string

text \<open>
  \<^verbatim>\<open>parse_ycsb_output(filepath)\<close>: the returned value (\<open>None\<close> is Python's \<^verbatim>\<open>None\<close>) and
  the warnings printed to \<^verbatim>\<open>sys.stderr\<close>.
\<close>

definition parse_ycsb_output ::
  "(string \<Rightarrow> 'f option) \<Rightarrow> (string \<Rightarrow> int option) \<Rightarrow> (string \<Rightarrow> file_status) \<Rightarrow> string
     \<Rightarrow> 'f metrics_dict option \<times> message list" where
  "parse_ycsb_output pfloat pint fs filepath =
     (case fs filepath of
        NoSuchFile \<Rightarrow> (None, [WarnFileNotFound filepath])
      | Unreadable e \<Rightarrow> (None, [WarnErrorParsing filepath e])
      | Readable ls \<Rightarrow>
          (case process_lines pfloat pint pstate_init ls of
             Inl e \<Rightarrow> (None, [WarnErrorParsing filepath e])
           | Inr st \<Rightarrow> (Some (metrics st), [])))"

section \<open>Expanding a histogram: \<^verbatim>\<open>get_latency_values\<close>\<close>

text \<open>
  The loop of lines 52 to 55: \<^verbatim>\<open>latencies.extend([latency] * count)\<close>. A list times
  an integer that is zero or negative is the empty list, hence \<open>nat count\<close>.
\<close>

definition get_latency_values :: "(int \<times> int) list \<Rightarrow> int list" where
  "get_latency_values latency_distribution =
     foldl (\<lambda>latencies (latency, count). latencies @ replicate (nat count) latency)
       [] latency_distribution"

section \<open>Selecting the plot's data: \<^verbatim>\<open>generate_plot\<close>\<close>

text \<open>Truthiness of a stored value; \<open>fbool\<close> is \<^verbatim>\<open>bool(x)\<close> of a float, that is \<^verbatim>\<open>x != 0.0\<close>.\<close>

definition truthy :: "('f \<Rightarrow> bool) \<Rightarrow> 'f pyval \<Rightarrow> bool" where
  "truthy fbool v = (case v of PNone \<Rightarrow> False | PFloat x \<Rightarrow> fbool x | PList xs \<Rightarrow> xs \<noteq> [])"

text \<open>
  One iteration of the loop of lines 62 to 67 on the item \<open>(db_name, metrics_data)\<close>:
  the condition is evaluated left to right and stops at the first falsy operand; a
  missing key raises \<^verbatim>\<open>KeyError\<close>, and iterating a float in
  \<^verbatim>\<open>get_latency_values\<close> raises \<^verbatim>\<open>TypeError\<close>.
\<close>

definition select_step ::
  "('f \<Rightarrow> bool) \<Rightarrow> string list \<times> int list list \<Rightarrow> string \<times> 'f metrics_dict option
     \<Rightarrow> exc + (string list \<times> int list list)" where
  "select_step fbool acc item =
     (case acc of (labels, data_to_plot) \<Rightarrow>
      (case item of (db_name, metrics_data) \<Rightarrow>
       (case metrics_data of
          None \<Rightarrow> Inr acc
        | Some m \<Rightarrow>
            if m = [] then Inr acc
            else
              (case getitem m ''UPDATE'' of
                 Inl e \<Rightarrow> Inl e
               | Inr u \<Rightarrow>
                   (case getitem u ''Operations'' of
                      Inl e \<Rightarrow> Inl e
                    | Inr ops \<Rightarrow>
                        if \<not> truthy fbool ops then Inr acc
                        else
                          (case getitem u ''LatencyDistribution'' of
                             Inl e \<Rightarrow> Inl e
                           | Inr ld \<Rightarrow>
                               if \<not> truthy fbool ld then Inr acc
                               else
                                 (case ld of
                                    PList d \<Rightarrow>
                                      (let update_latencies = get_latency_values d in
                                       if update_latencies \<noteq> []
                                       then Inr (labels @ [db_name],
                                                 data_to_plot @ [update_latencies])
                                       else Inr acc)
                                  | _ \<Rightarrow> Inl TypeError)))))))"

fun select_loop ::
  "('f \<Rightarrow> bool) \<Rightarrow> string list \<times> int list list \<Rightarrow> (string \<times> 'f metrics_dict option) list
     \<Rightarrow> exc + (string list \<times> int list list)" where
  "select_loop fbool acc [] = Inr acc"
| "select_loop fbool acc (item # items) =
     (case select_step fbool acc item of
        Inl e \<Rightarrow> Inl e
      | Inr acc' \<Rightarrow> select_loop fbool acc' items)"

text \<open>
  What \<^verbatim>\<open>plt.savefig\<close> writes: the figure holding only the text, or the box plot of the
  labelled sample groups. The plotting library itself is outside the script.
\<close>

datatype figure = TextFigure string | BoxPlot "string list" "int list list"

text \<open>
  \<^verbatim>\<open>generate_plot(all_metrics, output_image_path)\<close>: the file saved (path and figure)
  and the messages printed, or the exception that leaves the function.
\<close>

definition generate_plot ::
  "('f \<Rightarrow> bool) \<Rightarrow> (string \<times> 'f metrics_dict option) list \<Rightarrow> string
     \<Rightarrow> exc + ((string \<times> figure) \<times> message list)" where
  "generate_plot fbool all_metrics output_image_path =
     (case select_loop fbool ([], []) all_metrics of
        Inl e \<Rightarrow> Inl e
      | Inr (labels, data_to_plot) \<Rightarrow>
          if data_to_plot = []
          then Inr ((output_image_path,
                     TextFigure ''No UPDATE latency data available for plotting.''),
                    [NoUpdateData])
          else Inr ((output_image_path, BoxPlot labels data_to_plot),
                    [PlotGenerated output_image_path]))"

section \<open>The Markdown table: \<^verbatim>\<open>generate_markdown_report\<close>\<close>

text \<open>A string under the format specification \<^verbatim>\<open><w\<close>: padded with spaces on the right.\<close>

definition ljust :: "nat \<Rightarrow> string \<Rightarrow> string" where
  "ljust w s = s @ replicate (w - length s) (CHR '' '')"

text \<open>
  A cell \<^verbatim>\<open>{x:<w}\<close> where \<^verbatim>\<open>x = d.get(key, 'N/A')\<close>: \<open>None\<close> is the missing key, for
  which \<^verbatim>\<open>get\<close> gives the string \<^verbatim>\<open>'N/A'\<close>; a key that is present gives its value,
  also when that value is \<^verbatim>\<open>None\<close>, and \<^verbatim>\<open>None\<close> and lists reject a non-empty format
  specification with \<^verbatim>\<open>TypeError\<close>. \<open>ffmt w x\<close> is \<^verbatim>\<open>format(x, '<w')\<close> of a float.
\<close>

definition format_cell :: "(nat \<Rightarrow> 'f \<Rightarrow> string) \<Rightarrow> nat \<Rightarrow> 'f pyval option \<Rightarrow> exc + string" where
  "format_cell ffmt w x =
     (case x of
        None \<Rightarrow> Inr (ljust w ''N/A'')
      | Some PNone \<Rightarrow> Inl TypeError
      | Some (PFloat v) \<Rightarrow> Inr (ffmt w v)
      | Some (PList xs) \<Rightarrow> Inl TypeError)"

definition na_row :: "string \<Rightarrow> string" where
  "na_row db_name =
     ''| '' @ ljust 16 db_name
       @ '' | N/A                          | N/A                     | N/A                   |\<newline>''"

text \<open>The body of the loop of lines 99 to 106: the text of one table row.\<close>

definition table_row ::
  "(nat \<Rightarrow> 'f \<Rightarrow> string) \<Rightarrow> string \<times> 'f metrics_dict option \<Rightarrow> exc + string" where
  "table_row ffmt item =
     (case item of (db_name, metrics_data) \<Rightarrow>
      (case metrics_data of
         None \<Rightarrow> Inr (na_row db_name)
       | Some m \<Rightarrow>
           if m = [] then Inr (na_row db_name)
           else
             (case getitem m ''OVERALL'' of
                Inl e \<Rightarrow> Inl e
              | Inr ov \<Rightarrow>
                  (case getitem m ''UPDATE'' of
                     Inl e \<Rightarrow> Inl e
                   | Inr up \<Rightarrow>
                       (case getitem m ''READ'' of
                          Inl e \<Rightarrow> Inl e
                        | Inr rd \<Rightarrow>
                            (case format_cell ffmt 28 (map_of ov ''Throughput(ops/sec)'') of
                               Inl e \<Rightarrow> Inl e
                             | Inr throughput \<Rightarrow>
                                 (case format_cell ffmt 23 (map_of up ''AverageLatency(us)'') of
                                    Inl e \<Rightarrow> Inl e
                                  | Inr update_avg_latency \<Rightarrow>
                                      (case format_cell ffmt 21 (map_of rd ''AverageLatency(us)'') of
                                         Inl e \<Rightarrow> Inl e
                                       | Inr read_avg_latency \<Rightarrow>
                                           Inr (''| '' @ ljust 16 db_name @ '' | '' @ throughput
                                                @ '' | '' @ update_avg_latency
                                                @ '' | '' @ read_avg_latency
                                                @ '' |\<newline>'')))))))))"

text \<open>The rows written until the loop ends or a row raises.\<close>

fun write_rows ::
  "(nat \<Rightarrow> 'f \<Rightarrow> string) \<Rightarrow> (string \<times> 'f metrics_dict option) list \<Rightarrow> string list \<times> exc option" where
  "write_rows ffmt [] = ([], None)"
| "write_rows ffmt (item # items) =
     (case table_row ffmt item of
        Inl e \<Rightarrow> ([], Some e)
      | Inr row \<Rightarrow> (case write_rows ffmt items of (rows, r) \<Rightarrow> (row # rows, r)))"

text \<open>\<^verbatim>\<open>os.path.basename\<close> on a POSIX path.\<close>

definition basename :: "string \<Rightarrow> string" where
  "basename p = rev (takeWhile (\<lambda>c. c \<noteq> CHR ''/'') (rev p))"

definition report_head :: "string list" where
  "report_head =
     [''# YCSB Benchmark Comparison Report\<newline>\<newline>'',
      ''This report summarizes the YCSB Workload A results for various databases.\<newline>\<newline>'',
      ''## Overall Performance Summary\<newline>\<newline>'',
      ''| Database         | Overall Throughput (ops/sec) | UPDATE Avg Latency (us) | READ Avg Latency (us) |\<newline>'',
      ''|------------------|------------------------------|-------------------------|-----------------------|\<newline>'']"

definition report_plot_part :: "bool \<Rightarrow> string \<Rightarrow> string list" where
  "report_plot_part plot_exists plot_image_path =
     [''\<newline>'', ''## UPDATE Latency Distribution\<newline>\<newline>'']
     @ (if plot_exists
        then [''![UPDATE Latency Box Plot]('' @ basename plot_image_path @ '')\<newline>\<newline>'',
              ''*The box plot above shows the distribution of UPDATE latencies (in microseconds). Outliers are not shown for clarity.*\<newline>'']
        else [''Latency plot could not be generated.\<newline>''])"

definition report_notes :: "string list" where
  "report_notes =
     [''\<newline>## Notes\<newline>'',
      ''- **Workload**: YCSB Workload A (50% Read, 50% Update).\<newline>'',
      ''- **Latency Data**: The box plot visualizes the 0-1000us range primarily. For detailed percentile data beyond what YCSB typically outputs by default (e.g., for precise 25th, 50th, 75th percentiles needed for traditional box plots), YCSB may need specific configuration (`measurementtype=hdrhistogram` or `timeseries`) and post-processing of its raw output.\<newline>'',
      ''- **FoundationDB**: Results for FoundationDB are from its specific YCSB binding, which might report metrics differently than the JDBC binding used for others.\<newline>'']"

text \<open>
  \<^verbatim>\<open>generate_markdown_report(all_metrics, plot_image_path, output_md_path)\<close>: the
  report file (its path and the strings written to it, in order) and either the
  exception that ended the writing or the message printed after it. \<open>path_exists\<close> is
  \<^verbatim>\<open>os.path.exists\<close>. The items are sorted by name: the keys of a dictionary are
  distinct, so the comparison of two items never reaches the records.
\<close>

definition generate_markdown_report ::
  "(nat \<Rightarrow> 'f \<Rightarrow> string) \<Rightarrow> (string \<Rightarrow> bool) \<Rightarrow> (string \<times> 'f metrics_dict option) list
     \<Rightarrow> string \<Rightarrow> string \<Rightarrow> (string \<times> string list) \<times> (exc + message list)" where
  "generate_markdown_report ffmt path_exists all_metrics plot_image_path output_md_path =
     (case write_rows ffmt (sort_key fst all_metrics) of
        (rows, Some e) \<Rightarrow> ((output_md_path, report_head @ rows), Inl e)
      | (rows, None) \<Rightarrow>
          ((output_md_path,
            report_head @ rows
              @ report_plot_part (path_exists plot_image_path) plot_image_path
              @ report_notes),
           Inr [ReportGenerated output_md_path]))"

section \<open>The driver\<close>

definition db_results_files :: "(string \<times> string) list" where
  "db_results_files =
     [(''PostgreSQL'', ''./postgresql_results.txt''),
      (''CockroachDB'', ''./cockroachdb_results.txt''),
      (''FoundationDB'', ''./foundationdb_results.txt''),
      (''SQLite'', ''./sqlite_results.txt''),
      (''DuckDB'', ''./duckdb_results.txt'')]"

text \<open>
  The loop of lines 133 to 137 over the items of a name-to-path dictionary:
  \<^verbatim>\<open>all_db_metrics[db] = parse_ycsb_output(filepath)\<close>, with what is printed.
\<close>

definition aggregate_step ::
  "(string \<Rightarrow> 'f option) \<Rightarrow> (string \<Rightarrow> int option) \<Rightarrow> (string \<Rightarrow> file_status)
     \<Rightarrow> (string \<times> 'f metrics_dict option) list \<times> message list \<Rightarrow> string \<times> string
     \<Rightarrow> (string \<times> 'f metrics_dict option) list \<times> message list" where
  "aggregate_step pfloat pint fs acc item =
     (case acc of (all_db_metrics, out) \<Rightarrow>
      (case item of (db, filepath) \<Rightarrow>
       (case parse_ycsb_output pfloat pint fs filepath of
          (m, warnings) \<Rightarrow>
            (AList.update db m all_db_metrics, out @ [Processing filepath db] @ warnings))))"

definition aggregate ::
  "(string \<Rightarrow> 'f option) \<Rightarrow> (string \<Rightarrow> int option) \<Rightarrow> (string \<Rightarrow> file_status)
     \<Rightarrow> (string \<times> string) list \<Rightarrow> (string \<times> 'f metrics_dict option) list \<times> message list" where
  "aggregate pfloat pint fs files = foldl (aggregate_step pfloat pint fs) ([], []) files"

text \<open>
  The main block: the mapping is filled by the loop and then passed to the two
  renderers, neither of which assigns into it. An exception in \<^verbatim>\<open>generate_plot\<close> or
  \<^verbatim>\<open>generate_markdown_report\<close> is not caught and ends the run. After
  \<^verbatim>\<open>plt.savefig\<close> the plot file exists, and the report asks for no other path.
\<close>

record 'f run =
  all_db_metrics :: "(string \<times> 'f metrics_dict option) list"
  plot_saved :: "(string \<times> figure) option"
  report_written :: "(string \<times> string list) option"
  printed :: "message list"
  raised :: "exc option"

definition plot_file :: string where
  "plot_file = ''latency_comparison_plot.png''"

definition report_file :: string where
  "report_file = ''benchmark_report.md''"

definition main ::
  "(string \<Rightarrow> 'f option) \<Rightarrow> (string \<Rightarrow> int option) \<Rightarrow> ('f \<Rightarrow> bool) \<Rightarrow> (nat \<Rightarrow> 'f \<Rightarrow> string)
     \<Rightarrow> (string \<Rightarrow> file_status) \<Rightarrow> 'f run" where
  "main pfloat pint fbool ffmt fs =
     (case aggregate pfloat pint fs db_results_files of
        (all_metrics, out) \<Rightarrow>
          (case generate_plot fbool all_metrics plot_file of
             Inl e \<Rightarrow>
               \<lparr>all_db_metrics = all_metrics, plot_saved = None, report_written = None,
                printed = out, raised = Some e\<rparr>
           | Inr (saved, out_plot) \<Rightarrow>
               (case generate_markdown_report ffmt (\<lambda>p. p = plot_file) all_metrics
                       plot_file report_file of
                  (written, Inl e) \<Rightarrow>
                    \<lparr>all_db_metrics = all_metrics, plot_saved = Some saved,
                     report_written = Some written, printed = out @ out_plot,
                     raised = Some e\<rparr>
                | (written, Inr out_report) \<Rightarrow>
                    \<lparr>all_db_metrics = all_metrics, plot_saved = Some saved,
                     report_written = Some written,
                     printed = out @ out_plot @ out_report
                       @ [SetOutput ''report_file'' report_file,
                          SetOutput ''plot_file'' plot_file],
                     raised = None\<rparr>)))"

section \<open>Decimal literals\<close>

text \<open>
  Two conversions to instantiate the parameters \<open>pfloat\<close> and \<open>pint\<close> at concrete
  inputs. They agree with \<^verbatim>\<open>float\<close> and \<^verbatim>\<open>int\<close> on the strings they accept, which are
  the plain decimal literals (surrounding white space, a sign, digits and, for
  \<open>dec_float\<close>, a decimal point), and on the strings used below that they reject; the
  builtins accept more (digit separators, exponents, \<^verbatim>\<open>inf\<close> and \<^verbatim>\<open>nan\<close>). A float is
  written as the rational its literal denotes.
\<close>

definition ascii_digit :: "char \<Rightarrow> bool" where
  "ascii_digit c = (48 \<le> (of_char c :: nat) \<and> (of_char c :: nat) \<le> 57)"

definition digits_value :: "string \<Rightarrow> nat" where
  "digits_value s = foldl (\<lambda>n c. 10 * n + (of_char c - 48)) 0 s"

definition signed_body :: "string \<Rightarrow> int \<times> string" where
  "signed_body s =
     (case s of
        [] \<Rightarrow> (1, [])
      | c # r \<Rightarrow> if c = CHR ''-'' then (- 1, r) else if c = CHR ''+'' then (1, r) else (1, s))"

definition dec_int :: "string \<Rightarrow> int option" where
  "dec_int s =
     (case signed_body (strip s) of (sg, body) \<Rightarrow>
        if body \<noteq> [] \<and> list_all ascii_digit body
        then Some (sg * int (digits_value body)) else None)"

definition dec_float :: "string \<Rightarrow> rat option" where
  "dec_float s =
     (case signed_body (strip s) of (sg, body) \<Rightarrow>
        (let ip = takeWhile ascii_digit body; rest = dropWhile ascii_digit body in
         case rest of
           [] \<Rightarrow> if ip = [] then None else Some (of_int (sg * int (digits_value ip)))
         | c # fp \<Rightarrow>
             if c = CHR ''.'' \<and> list_all ascii_digit fp \<and> (ip \<noteq> [] \<or> fp \<noteq> [])
             then Some (of_int (sg * int (digits_value (ip @ fp))) / 10 ^ length fp)
             else None))"

section \<open>Sample result files\<close>

text \<open>
  A file in the format YCSB prints, a file with two sections and their histograms, and a
  file that measured zero operations; and a file system in which the first database has
  the YCSB file, the second cannot be read, the third has no file, and the last two have
  the other files.
\<close>

definition ycsb_lines :: "string list" where
  "ycsb_lines =
     [''[OVERALL], RunTime(ms), 12345\<newline>'',
      ''[OVERALL], Throughput(ops/sec), 99.5\<newline>'',
      ''[UPDATE], Operations, 8\<newline>'',
      ''1,5\<newline>'',
      ''2,3\<newline>'']"

definition update_lines :: "string list" where
  "update_lines =
     [''[UPDATE], Operations, 8\<newline>'',
      ''[UPDATE], AverageLatency(us), 1.5\<newline>'',
      ''1,5\<newline>'',
      ''>1000,0\<newline>'',
      ''2,3\<newline>'',
      ''[READ], Operations, 1\<newline>'',
      ''[READ], AverageLatency(us), 7\<newline>'',
      ''7,1\<newline>'']"

definition zero_ops_lines :: "string list" where
  "zero_ops_lines = [''[UPDATE], Operations, 0\<newline>'', ''1,5\<newline>'']"

definition sample_fs :: "string \<Rightarrow> file_status" where
  "sample_fs p =
     (if p = ''./postgresql_results.txt'' then Readable ycsb_lines
      else if p = ''./cockroachdb_results.txt'' then Unreadable OSError
      else if p = ''./sqlite_results.txt'' then Readable update_lines
      else if p = ''./duckdb_results.txt'' then Readable zero_ops_lines
      else NoSuchFile)"

definition inexact_lines :: "string list" where
  "inexact_lines =
     [''[UPDATE], Operations, 8\<newline>'', ''1,5\<newline>'', ''[UPDATE] extra, label, 1.0\<newline>'']"

definition short_inexact_lines :: "string list" where
  "short_inexact_lines =
     [''[UPDATE], Operations, 8\<newline>'', ''[UPDATE] extra\<newline>'', ''1,5\<newline>'']"



text \<open>\<^verbatim>\<open>bool(x)\<close> of a float written as a rational: \<^verbatim>\<open>x != 0.0\<close>.\<close>

definition rat_bool :: "rat \<Rightarrow> bool" where
  "rat_bool x = (x \<noteq> 0)"

section \<open>Conditions on the records of a mapping\<close>



text \<open>A present record whose \<^verbatim>\<open>UPDATE\<close> operation count is a float equal to \<^verbatim>\<open>0.0\<close>.\<close>

definition zero_operations :: "('f \<Rightarrow> bool) \<Rightarrow> 'f metrics_dict option \<Rightarrow> bool" where
  "zero_operations fbool r =
     (case r of
        None \<Rightarrow> False
      | Some m \<Rightarrow>
          (case map_of m ''UPDATE'' of
             None \<Rightarrow> False
           | Some u \<Rightarrow>
               (case map_of u ''Operations'' of
                  Some (PFloat x) \<Rightarrow> \<not> fbool x
                | _ \<Rightarrow> False)))"

text \<open>
  The shape \<^verbatim>\<open>generate_plot\<close> relies on: the record has the \<^verbatim>\<open>UPDATE\<close> section, and
  the section has the keys \<^verbatim>\<open>Operations\<close> and \<^verbatim>\<open>LatencyDistribution\<close>.
\<close>

definition has_update_keys :: "'f metrics_dict \<Rightarrow> bool" where
  "has_update_keys m =
     (case map_of m ''UPDATE'' of
        None \<Rightarrow> False
      | Some u \<Rightarrow> map_of u ''Operations'' \<noteq> None \<and> map_of u ''LatencyDistribution'' \<noteq> None)"

section \<open>Properties of the parser\<close>

lemma process_lines_append:
  "process_lines pfloat pint st (xs @ ys) =
     (case process_lines pfloat pint st xs of
        Inl e \<Rightarrow> Inl e
      | Inr st' \<Rightarrow> process_lines pfloat pint st' ys)"
  by (induction xs arbitrary: st) (auto split: sum.splits)

lemma process_lines_raises:
  assumes "l \<in> set ls" and "\<And>st. \<exists>e. process_line pfloat pint st l = Inl e"
  shows "\<exists>e. process_lines pfloat pint st0 ls = Inl e"
proof -
  from assms(1) obtain pre post where ls: "ls = pre @ l # post"
    by (auto dest: split_list)
  show ?thesis
  proof (cases "process_lines pfloat pint st0 pre")
    case (Inl e)
    then show ?thesis by (simp add: ls process_lines_append)
  next
    case (Inr st')
    from assms(2) obtain e where "process_line pfloat pint st' l = Inl e" by blast
    with Inr show ?thesis by (simp add: ls process_lines_append)
  qed
qed

lemma overall_line_raises:
  assumes "startswith (strip l) ''[OVERALL]''"
    and "length (split (strip l) '', '') = 3"
    and "pfloat (split (strip l) '', '' ! 1) = None"
  shows "process_line pfloat pint st l = Inl ValueError"
  using assms by (simp add: process_line_def Let_def)

lemma update_fresh: "k \<notin> fst ` set al \<Longrightarrow> AList.update k v al = al @ [(k, v)]"
  by (induction al) auto

lemma aggregate_snoc:
  "aggregate pfloat pint fs (files @ [item]) =
     aggregate_step pfloat pint fs (aggregate pfloat pint fs files) item"
  by (simp add: aggregate_def)

lemma aggregate_entries:
  "distinct (map fst files) \<Longrightarrow>
     fst (aggregate pfloat pint fs files) =
       map (\<lambda>(db, filepath). (db, fst (parse_ycsb_output pfloat pint fs filepath))) files"
proof (induction files rule: rev_induct)
  case Nil
  then show ?case by (simp add: aggregate_def)
next
  case (snoc item files)
  obtain db filepath where item: "item = (db, filepath)" by (cases item)
  let ?prev = "map (\<lambda>(db, filepath). (db, fst (parse_ycsb_output pfloat pint fs filepath))) files"
  from snoc have prev: "fst (aggregate pfloat pint fs files) = ?prev" by simp
  from snoc.prems have "db \<notin> fst ` set ?prev" by (force simp: item)
  then have "AList.update db v ?prev = ?prev @ [(db, v)]" for v
    by (rule update_fresh)
  with prev show ?case
    by (cases "aggregate pfloat pint fs files")
       (simp add: aggregate_snoc aggregate_step_def item split: prod.splits)
qed

lemma distinct_db_names: "distinct (map fst db_results_files)"
  by (simp add: db_results_files_def)

lemma parse_cases:
  "parse_ycsb_output pfloat pint fs filepath =
     (case fs filepath of
        NoSuchFile \<Rightarrow> (None, [WarnFileNotFound filepath])
      | Unreadable e \<Rightarrow> (None, [WarnErrorParsing filepath e])
      | Readable ls \<Rightarrow>
          (case process_lines pfloat pint pstate_init ls of
             Inl e \<Rightarrow> (None, [WarnErrorParsing filepath e])
           | Inr st \<Rightarrow> (Some (metrics st), [])))"
  by (simp add: parse_ycsb_output_def)

text \<open>
  C1. The claim: an \<^verbatim>\<open>[OVERALL]\<close> row of three fields, in the canonical form
  \<^verbatim>\<open>[OVERALL], RunTime(ms), 12345\<close>, gives the record its run time. The source converts
  field 2, which on such a row is the label, so the row raises \<^verbatim>\<open>ValueError\<close> and the
  whole file is reported absent: whenever a file holds a three-field \<^verbatim>\<open>[OVERALL]\<close> row
  whose second field is not a float literal, the parser returns \<^verbatim>\<open>None\<close> with the
  parse warning.
\<close>

theorem overall_label_row_aborts:
  assumes "fs filepath = Readable ls" and "l \<in> set ls"
    and "startswith (strip l) ''[OVERALL]''"
    and "length (split (strip l) '', '') = 3"
    and "pfloat (split (strip l) '', '' ! 1) = None"
  shows "\<exists>e. parse_ycsb_output pfloat pint fs filepath = (None, [WarnErrorParsing filepath e])"
proof -
  have "\<exists>e. process_lines pfloat pint pstate_init ls = Inl e"
    using assms(2) overall_line_raises [where pfloat = pfloat and l = l, OF assms(3-5)]
    by (intro process_lines_raises) auto
  then show ?thesis
    by (auto simp: parse_ycsb_output_def assms(1))
qed

theorem overall_label_row_aborts_witness:
  "parse_ycsb_output dec_float dec_int sample_fs ''./postgresql_results.txt''
   = (None, [WarnErrorParsing ''./postgresql_results.txt'' ValueError])"
proof -
  let ?l = "''[OVERALL], RunTime(ms), 12345\<newline>''"
  have h1: "sample_fs ''./postgresql_results.txt'' = Readable ycsb_lines"
    by (simp add: sample_fs_def)
  have h2: "?l \<in> set ycsb_lines" by (simp add: ycsb_lines_def)
  have h3: "startswith (strip ?l) ''[OVERALL]''" by code_simp
  have h4: "length (split (strip ?l) '', '') = 3" by code_simp
  have h5: "dec_float (split (strip ?l) '', '' ! 1) = None" by code_simp
  from overall_label_row_aborts [where pfloat = dec_float and pint = dec_int and fs = sample_fs
      and filepath = "''./postgresql_results.txt''" and l = ?l, OF h1 h2 h3 h4 h5]
  obtain e where e: "parse_ycsb_output dec_float dec_int sample_fs ''./postgresql_results.txt''
     = (None, [WarnErrorParsing ''./postgresql_results.txt'' e])" by blast
  have "process_lines dec_float dec_int pstate_init ycsb_lines = Inl ValueError" by code_simp
  then have "parse_ycsb_output dec_float dec_int sample_fs ''./postgresql_results.txt''
     = (None, [WarnErrorParsing ''./postgresql_results.txt'' ValueError])"
    by (simp add: parse_ycsb_output_def h1)
  with e show ?thesis by simp
qed

text \<open>
  C2. For every file path the parser returns a record with no warning or \<^verbatim>\<open>None\<close> with
  exactly one warning: a missing file gives the file-not-found warning, an unreadable
  file and an exception raised by a line give the parse warning. No exception leaves
  the parser, so the driver's loop gives every database of its table an entry, in
  order, whatever the files are.
\<close>

theorem parse_never_raises:
  "(fs filepath = NoSuchFile \<longrightarrow>
      parse_ycsb_output pfloat pint fs filepath = (None, [WarnFileNotFound filepath]))
   \<and> (\<forall>e. fs filepath = Unreadable e \<longrightarrow>
      parse_ycsb_output pfloat pint fs filepath = (None, [WarnErrorParsing filepath e]))
   \<and> (\<forall>ls e. fs filepath = Readable ls \<and> process_lines pfloat pint pstate_init ls = Inl e \<longrightarrow>
      parse_ycsb_output pfloat pint fs filepath = (None, [WarnErrorParsing filepath e]))
   \<and> ((\<exists>m. parse_ycsb_output pfloat pint fs filepath = (Some m, []))
      \<or> (\<exists>w. parse_ycsb_output pfloat pint fs filepath = (None, [w])))
   \<and> fst (aggregate pfloat pint fs db_results_files) =
       map (\<lambda>(db, path). (db, fst (parse_ycsb_output pfloat pint fs path))) db_results_files"
proof -
  have "(\<exists>m. parse_ycsb_output pfloat pint fs filepath = (Some m, []))
      \<or> (\<exists>w. parse_ycsb_output pfloat pint fs filepath = (None, [w]))"
    by (simp add: parse_cases split: file_status.splits sum.splits)
  moreover have "fst (aggregate pfloat pint fs db_results_files) =
       map (\<lambda>(db, path). (db, fst (parse_ycsb_output pfloat pint fs path))) db_results_files"
    by (rule aggregate_entries [OF distinct_db_names])
  ultimately show ?thesis
    by (simp add: parse_cases)
qed

theorem parse_never_raises_witness:
  "parse_ycsb_output dec_float dec_int sample_fs ''./foundationdb_results.txt''
     = (None, [WarnFileNotFound ''./foundationdb_results.txt''])
   \<and> parse_ycsb_output dec_float dec_int sample_fs ''./cockroachdb_results.txt''
     = (None, [WarnErrorParsing ''./cockroachdb_results.txt'' OSError])
   \<and> parse_ycsb_output dec_float dec_int sample_fs ''./postgresql_results.txt''
     = (None, [WarnErrorParsing ''./postgresql_results.txt'' ValueError])
   \<and> map fst (fst (aggregate dec_float dec_int sample_fs db_results_files))
     = [''PostgreSQL'', ''CockroachDB'', ''FoundationDB'', ''SQLite'', ''DuckDB'']"
proof -
  have f: "sample_fs ''./foundationdb_results.txt'' = NoSuchFile"
    and c: "sample_fs ''./cockroachdb_results.txt'' = Unreadable OSError"
    and p: "sample_fs ''./postgresql_results.txt'' = Readable ycsb_lines"
    by (simp_all add: sample_fs_def)
  have l: "process_lines dec_float dec_int pstate_init ycsb_lines = Inl ValueError"
    by code_simp
  note t = parse_never_raises [where pfloat = dec_float and pint = dec_int and fs = sample_fs]
  have "parse_ycsb_output dec_float dec_int sample_fs ''./foundationdb_results.txt''
     = (None, [WarnFileNotFound ''./foundationdb_results.txt''])"
    using t [where filepath = "''./foundationdb_results.txt''"] f by blast
  moreover have "parse_ycsb_output dec_float dec_int sample_fs ''./cockroachdb_results.txt''
     = (None, [WarnErrorParsing ''./cockroachdb_results.txt'' OSError])"
    using t [where filepath = "''./cockroachdb_results.txt''"] c by blast
  moreover have "parse_ycsb_output dec_float dec_int sample_fs ''./postgresql_results.txt''
     = (None, [WarnErrorParsing ''./postgresql_results.txt'' ValueError])"
    using t [where filepath = "''./postgresql_results.txt''"] p l by blast
  moreover have "map fst (fst (aggregate dec_float dec_int sample_fs db_results_files))
     = [''PostgreSQL'', ''CockroachDB'', ''FoundationDB'', ''SQLite'', ''DuckDB'']"
    using t [where filepath = "''x''"] by (simp add: db_results_files_def)
  ultimately show ?thesis by blast
qed

lemma map_of_entries:
  "distinct (map fst files) \<Longrightarrow> (db, filepath) \<in> set files \<Longrightarrow>
     map_of (map (\<lambda>(db, filepath). (db, f filepath)) files) db = Some (f filepath)"
  by (induction files) (auto simp: rev_image_eqI)

lemma aggregate_lookup:
  assumes "(db, filepath) \<in> set db_results_files"
  shows "map_of (fst (aggregate pfloat pint fs db_results_files)) db
           = Some (fst (parse_ycsb_output pfloat pint fs filepath))"
  by (simp add: aggregate_entries [OF distinct_db_names]
        map_of_entries [OF distinct_db_names assms])

lemma main_mapping:
  "all_db_metrics (main pfloat pint fbool ffmt fs) = fst (aggregate pfloat pint fs db_results_files)"
  by (simp add: main_def split: prod.splits sum.splits)

text \<open>
  C8. For every database of the driver's table whose file does not exist, the parser
  returns \<^verbatim>\<open>None\<close> and the mapping holds the key with the value \<^verbatim>\<open>None\<close>; a file that
  parses holds its record, a different entry, also when the record counts zero
  operations. The mapping of the run is the one the loop built: the renderers receive
  it and return their outputs.
\<close>

theorem missing_file_entry_absent:
  assumes "(db, filepath) \<in> set db_results_files"
  shows "(fs filepath = NoSuchFile \<longrightarrow>
            parse_ycsb_output pfloat pint fs filepath = (None, [WarnFileNotFound filepath])
            \<and> map_of (fst (aggregate pfloat pint fs db_results_files)) db = Some None)
       \<and> (\<forall>ls st. fs filepath = Readable ls
              \<and> process_lines pfloat pint pstate_init ls = Inr st \<longrightarrow>
            map_of (fst (aggregate pfloat pint fs db_results_files)) db = Some (Some (metrics st))
            \<and> Some (Some (metrics st)) \<noteq> (Some None :: 'a metrics_dict option option))
       \<and> all_db_metrics (main pfloat pint fbool ffmt fs)
            = fst (aggregate pfloat pint fs db_results_files)"
  by (simp add: aggregate_lookup [OF assms] main_mapping parse_cases)

theorem missing_file_entry_absent_witness:
  "map_of (fst (aggregate dec_float dec_int sample_fs db_results_files)) ''FoundationDB''
     = Some None
   \<and> (\<exists>m u. map_of (fst (aggregate dec_float dec_int sample_fs db_results_files)) ''DuckDB''
          = Some (Some m)
        \<and> map_of m ''UPDATE'' = Some u \<and> map_of u ''Operations'' = Some (PFloat 0))"
proof -
  have a: "(''FoundationDB'', ''./foundationdb_results.txt'') \<in> set db_results_files"
    and b: "(''DuckDB'', ''./duckdb_results.txt'') \<in> set db_results_files"
    by (simp_all add: db_results_files_def)
  have f: "sample_fs ''./foundationdb_results.txt'' = NoSuchFile"
    and d: "sample_fs ''./duckdb_results.txt'' = Readable zero_ops_lines"
    by (simp_all add: sample_fs_def)
  define st :: "rat pstate" where "st = \<lparr>current_section = Some ''UPDATE'', metrics =
     [(''OVERALL'', [(''RunTime(ms)'', PNone), (''Throughput(ops/sec)'', PNone)]),
      (''UPDATE'', [(''Operations'', PFloat 0), (''AverageLatency(us)'', PNone),
        (''MinLatency(us)'', PNone), (''MaxLatency(us)'', PNone),
        (''95thPercentileLatency(us)'', PNone), (''99thPercentileLatency(us)'', PNone),
        (''Return=OK'', PNone), (''LatencyDistribution'', PList [(1, 5)])]),
      (''READ'', section_init)]\<rparr>"
  have l: "process_lines dec_float dec_int pstate_init zero_ops_lines = Inr st"
    unfolding st_def by code_simp
  have "map_of (fst (aggregate dec_float dec_int sample_fs db_results_files)) ''FoundationDB''
     = Some None"
    using missing_file_entry_absent [OF a, where fs = sample_fs and pfloat = dec_float
      and pint = dec_int] f by blast
  moreover have "map_of (fst (aggregate dec_float dec_int sample_fs db_results_files)) ''DuckDB''
     = Some (Some (metrics st))"
    using missing_file_entry_absent [OF b, where fs = sample_fs and pfloat = dec_float
      and pint = dec_int] d l by blast
  moreover have "map_of (metrics st) ''UPDATE'' = Some (the (map_of (metrics st) ''UPDATE''))
    \<and> map_of (the (map_of (metrics st) ''UPDATE'')) ''Operations'' = Some (PFloat 0)"
    by (simp add: st_def)
  ultimately show ?thesis by blast
qed

lemma histogram_not_marker:
  "histogram_shaped line \<Longrightarrow>
     \<not> startswith line ''[OVERALL]'' \<and> \<not> startswith line ''[UPDATE]'' \<and> \<not> startswith line ''[READ]''"
  by (cases line) (auto simp: histogram_shaped_def startswith_def isdigit_def)

lemma malformed_row_step:
  assumes "current_section st = Some ''UPDATE'' \<or> current_section st = Some ''READ''"
    and "histogram_shaped (strip l)"
    and "unpack_int_pair pint (split (strip l) '','') = Inl e"
  shows "process_line pfloat pint st l = Inr st"
  using assms histogram_not_marker [OF assms(2)]
  by (auto simp: process_line_def Let_def section_truthy_def)

text \<open>
  C5. Inside an \<^verbatim>\<open>UPDATE\<close> or \<^verbatim>\<open>READ\<close> section, a histogram-shaped line whose fields
  fail the integer unpacking leaves the state as it was, and the file parses as if the
  line were not there: the lines after it are processed, and what was accumulated
  before it is unchanged.
\<close>

theorem malformed_row_dropped:
  assumes "current_section st = Some ''UPDATE'' \<or> current_section st = Some ''READ''"
    and "histogram_shaped (strip l)"
    and "unpack_int_pair pint (split (strip l) '','') = Inl e"
  shows "process_line pfloat pint st l = Inr st
       \<and> process_lines pfloat pint st (l # rest) = process_lines pfloat pint st rest
       \<and> (process_lines pfloat pint st0 pre = Inr st \<longrightarrow>
            process_lines pfloat pint st0 (pre @ l # rest) = process_lines pfloat pint st0 (pre @ rest))"
  using malformed_row_step [OF assms, of pfloat]
  by (simp add: process_lines_append)

theorem malformed_row_dropped_witness:
  "process_lines dec_float dec_int pstate_init update_lines
     = process_lines dec_float dec_int pstate_init
         [''[UPDATE], Operations, 8\<newline>'', ''[UPDATE], AverageLatency(us), 1.5\<newline>'',
          ''1,5\<newline>'', ''2,3\<newline>'', ''[READ], Operations, 1\<newline>'',
          ''[READ], AverageLatency(us), 7\<newline>'', ''7,1\<newline>'']
   \<and> (case process_lines dec_float dec_int pstate_init update_lines of
         Inl e \<Rightarrow> None
       | Inr st \<Rightarrow> map_of (the (map_of (metrics st) ''UPDATE'')) ''LatencyDistribution'')
       = Some (PList [(1, 5), (2, 3)])"
proof -
  let ?pre = "[''[UPDATE], Operations, 8\<newline>'', ''[UPDATE], AverageLatency(us), 1.5\<newline>'',
          ''1,5\<newline>'']"
  let ?rest = "[''2,3\<newline>'', ''[READ], Operations, 1\<newline>'',
          ''[READ], AverageLatency(us), 7\<newline>'', ''7,1\<newline>'']"
  let ?l = "''>1000,0\<newline>''"
  define st :: "rat pstate" where "st = \<lparr>current_section = Some ''UPDATE'', metrics =
     [(''OVERALL'', [(''RunTime(ms)'', PNone), (''Throughput(ops/sec)'', PNone)]),
      (''UPDATE'', [(''Operations'', PFloat 8), (''AverageLatency(us)'', PFloat (3 / 2)),
        (''MinLatency(us)'', PNone), (''MaxLatency(us)'', PNone),
        (''95thPercentileLatency(us)'', PNone), (''99thPercentileLatency(us)'', PNone),
        (''Return=OK'', PNone), (''LatencyDistribution'', PList [(1, 5)])]),
      (''READ'', section_init)]\<rparr>"
  have pre: "process_lines dec_float dec_int pstate_init ?pre = Inr st"
    unfolding st_def by code_simp
  have h1: "current_section st = Some ''UPDATE'' \<or> current_section st = Some ''READ''"
    by (simp add: st_def)
  have h2: "histogram_shaped (strip ?l)" by code_simp
  have h3: "unpack_int_pair dec_int (split (strip ?l) '','') = Inl ValueError" by code_simp
  have split_file: "update_lines = ?pre @ ?l # ?rest" by (simp add: update_lines_def)
  have "process_lines dec_float dec_int pstate_init (?pre @ ?l # ?rest)
      = process_lines dec_float dec_int pstate_init (?pre @ ?rest)"
    using malformed_row_dropped [where st = st and l = ?l and pint = dec_int
      and pfloat = dec_float and ?st0.0 = pstate_init and pre = ?pre and rest = ?rest,
      OF h1 h2 h3] pre by blast
  then have a: "process_lines dec_float dec_int pstate_init update_lines
      = process_lines dec_float dec_int pstate_init (?pre @ ?rest)"
    by (simp only: split_file)
  have b: "(case process_lines dec_float dec_int pstate_init (?pre @ ?rest) of
         Inl e \<Rightarrow> None
       | Inr st \<Rightarrow> map_of (the (map_of (metrics st) ''UPDATE'')) ''LatencyDistribution'')
       = Some (PList [(1, 5), (2, 3)])"
    by code_simp
  from a b show ?thesis by simp
qed

section \<open>Properties of the histogram expansion\<close>

lemma expand_foldl:
  "foldl (\<lambda>latencies (latency, count). latencies @ replicate (nat count) latency) acc d
     = acc @ concat (map (\<lambda>(latency, count). replicate (nat count) latency) d)"
  by (induction d arbitrary: acc) (auto split: prod.splits)

lemma get_latency_values_concat:
  "get_latency_values d = concat (map (\<lambda>(latency, count). replicate (nat count) latency) d)"
  by (simp add: get_latency_values_def expand_foldl)

lemma mset_get_latency_values:
  "mset (get_latency_values d)
     = sum_mset (image_mset (\<lambda>(latency, count). replicate_mset (nat count) latency) (mset d))"
  by (induction d) (auto simp: get_latency_values_concat)

lemma length_get_latency_values:
  "length (get_latency_values d) = sum_list (map (\<lambda>(latency, count). nat count) d)"
  by (induction d) (auto simp: get_latency_values_concat)

lemma length_nonneg_counts:
  "\<forall>(latency, count) \<in> set d. 0 \<le> count \<Longrightarrow>
     int (length (get_latency_values d)) = sum_list (map snd d)"
  by (induction d) (auto simp: get_latency_values_concat)

text \<open>
  C4, as stated, at a negative count: the pair \<open>(7, -2)\<close> contributes nothing, and the
  length of the result is not the sum of the counts.
\<close>

theorem negative_count_counterexample:
  "get_latency_values [(7, - 2)] = []
   \<and> int (length (get_latency_values [(7, - 2)])) \<noteq> sum_list (map snd [(7 :: int, - 2 :: int)])"
  by (simp add: get_latency_values_def)

text \<open>
  C4, amended. Each pair \<open>(value, count)\<close> contributes \<open>max(count, 0)\<close> repetitions of the
  value, in the order of the rows; when no count is negative the length of the result
  is the sum of the counts; two distributions with the same rows in any order expand to
  the same multiset; the rows \<open>(1, 5)\<close> and \<open>(2, 3)\<close> expand to eight values, five 1's
  and three 2's.
\<close>

theorem get_latency_values_expansion:
  "get_latency_values d = concat (map (\<lambda>(latency, count). replicate (nat count) latency) d)
   \<and> ((\<forall>(latency, count) \<in> set d. 0 \<le> count) \<longrightarrow>
        int (length (get_latency_values d)) = sum_list (map snd d))
   \<and> (mset d = mset d' \<longrightarrow> mset (get_latency_values d) = mset (get_latency_values d'))
   \<and> length (get_latency_values [(1, 5), (2, 3)]) = 8
   \<and> count (mset (get_latency_values [(1, 5), (2, 3)])) 1 = 5
   \<and> count (mset (get_latency_values [(1, 5), (2, 3)])) 2 = 3"
proof -
  have ex: "get_latency_values [(1, 5), (2, 3)] = [1, 1, 1, 1, 1, 2, 2, 2]"
    by (simp add: get_latency_values_def eval_nat_numeral)
  have perm: "mset d = mset d' \<longrightarrow> mset (get_latency_values d) = mset (get_latency_values d')"
    by (simp add: mset_get_latency_values)
  have len: "(\<forall>(latency, count) \<in> set d. 0 \<le> count) \<longrightarrow>
        int (length (get_latency_values d)) = sum_list (map snd d)"
    using length_nonneg_counts [of d] by blast
  show ?thesis
    using get_latency_values_concat [of d] len perm by (simp add: ex)
qed

theorem get_latency_values_expansion_witness:
  "get_latency_values [(1, 5), (2, 3)] = [1, 1, 1, 1, 1, 2, 2, 2]
   \<and> int (length (get_latency_values [(1, 5), (2, 3)])) = 8
   \<and> mset (get_latency_values [(2, 3), (1, 5)]) = mset (get_latency_values [(1, 5), (2, 3)])"
proof -
  note t = get_latency_values_expansion [of "[(1, 5), (2, 3)]" "[(2, 3), (1, 5)]"]
  have m: "mset [(1 :: int, 5 :: int), (2, 3)] = mset [(2, 3), (1, 5)]" by simp
  have "get_latency_values [(1, 5), (2, 3)] = [1, 1, 1, 1, 1, 2, 2, 2]"
    using t by (simp add: eval_nat_numeral)
  moreover have "int (length (get_latency_values [(1, 5), (2, 3)])) = 8"
    using t by simp
  moreover have "mset (get_latency_values [(2, 3), (1, 5)]) = mset (get_latency_values [(1, 5), (2, 3)])"
    using t [THEN conjunct2, THEN conjunct2, THEN conjunct1] m by simp
  ultimately show ?thesis by blast
qed

section \<open>Section marker lines\<close>

lemma hd_split_from: "\<exists>p q. hd (split_from sep acc s) = rev acc @ p \<and> s = p @ q"
proof (induction s arbitrary: acc)
  case Nil
  then show ?case by simp
next
  case (Cons c cs)
  show ?case
  proof (cases "startswith (c # cs) sep")
    case True
    then show ?thesis by simp
  next
    case False
    from Cons [of "c # acc"] obtain p q where
      "hd (split_from sep (c # acc) cs) = rev (c # acc) @ p" and "cs = p @ q" by blast
    with False have "hd (split_from sep acc (c # cs)) = rev acc @ (c # p) \<and> c # cs = (c # p) @ q"
      by simp
    then show ?thesis by blast
  qed
qed

lemma startswith_append: "startswith s p \<Longrightarrow> \<exists>r. s = p @ r"
  unfolding startswith_def by (metis append_take_drop_id)

lemma first_field_prefix: "startswith s (hd (split s sep))"
proof -
  from hd_split_from [of sep "[]" s] obtain p q where
    h: "hd (split_from sep [] s) = rev [] @ p" and s: "s = p @ q" by blast
  have "take (length p) s = p" by (subst s) simp
  with h show ?thesis by (simp add: startswith_def split_def)
qed

lemma update_not_overall:
  assumes "startswith s ''[UPDATE]''"
  shows "\<not> startswith s ''[OVERALL]''"
proof -
  from startswith_append [OF assms] obtain r where "s = ''[UPDATE]'' @ r" by blast
  then show ?thesis by (simp add: startswith_def)
qed

lemma read_not_overall:
  assumes "startswith s ''[READ]''"
  shows "\<not> startswith s ''[OVERALL]''"
proof -
  from startswith_append [OF assms] obtain r where "s = ''[READ]'' @ r" by blast
  then show ?thesis by (simp add: startswith_def)
qed

lemma update_first_field:
  assumes "startswith s ''[UPDATE]''"
  shows "\<exists>p. hd (split s '', '') = ''[UPDATE]'' @ p"
proof -
  from startswith_append [OF assms] obtain r where s: "s = ''[UPDATE]'' @ r" by blast
  have "split s '', '' = split_from '', '' (rev ''[UPDATE]'') r"
    by (simp add: s split_def startswith_def)
  with hd_split_from [of "'', ''" "rev ''[UPDATE]''" r] show ?thesis by auto
qed

lemma read_first_field:
  assumes "startswith s ''[READ]''"
  shows "\<exists>p. hd (split s '', '') = ''[READ]'' @ p"
proof -
  from startswith_append [OF assms] obtain r where s: "s = ''[READ]'' @ r" by blast
  have "split s '', '' = split_from '', '' (rev ''[READ]'') r"
    by (simp add: s split_def startswith_def)
  with hd_split_from [of "'', ''" "rev ''[READ]''" r] show ?thesis by auto
qed

lemma inexact_marker_section:
  assumes "startswith s ''[UPDATE]'' \<or> startswith s ''[READ]''"
    and "hd (split s '', '') \<noteq> ''[UPDATE]''" and "hd (split s '', '') \<noteq> ''[READ]''"
  shows "slice_1_m1 (hd (split s '', '')) \<notin> {''OVERALL'', ''UPDATE'', ''READ''}"
proof -
  from assms(1) show ?thesis
  proof
    assume "startswith s ''[UPDATE]''"
    from update_first_field [OF this] obtain p where p: "hd (split s '', '') = ''[UPDATE]'' @ p"
      by blast
    with assms(2) have "p \<noteq> []" by auto
    then have "slice_1_m1 (hd (split s '', '')) = ''UPDATE]'' @ butlast p"
      by (simp add: p slice_1_m1_def butlast_append)
    then show ?thesis by simp
  next
    assume "startswith s ''[READ]''"
    from read_first_field [OF this] obtain p where p: "hd (split s '', '') = ''[READ]'' @ p"
      by blast
    with assms(3) have "p \<noteq> []" by auto
    then have "slice_1_m1 (hd (split s '', '')) = ''READ]'' @ butlast p"
      by (simp add: p slice_1_m1_def butlast_append)
    then show ?thesis by simp
  qed
qed

lemma map_of_key: "map_of m k = Some v \<Longrightarrow> k \<in> fst ` set m"
  by (metis domI dom_map_of_conv_image_fst)

lemma store_metric_keys:
  "store_metric m sect key v = Inr m' \<Longrightarrow> map fst m' = map fst m"
  by (auto simp: store_metric_def getitem_def update_keys dest: map_of_key
           split: option.splits)

lemma append_latency_keys:
  "append_latency m sect p = Inr m' \<Longrightarrow> map fst m' = map fst m"
  by (auto simp: append_latency_def getitem_def update_keys dest: map_of_key
           split: option.splits pyval.splits)

lemma process_line_keys:
  "process_line pfloat pint st l = Inr st' \<Longrightarrow> map fst (metrics st') = map fst (metrics st)"
  by (auto simp: process_line_def Let_def
           dest!: store_metric_keys append_latency_keys
           split: if_splits option.splits sum.splits)

lemma process_lines_keys:
  "process_lines pfloat pint st ls = Inr st' \<Longrightarrow> map fst (metrics st') = map fst (metrics st)"
proof (induction ls arbitrary: st)
  case Nil
  then show ?case by simp
next
  case (Cons l ls)
  then show ?case
    by (auto split: sum.splits dest: process_line_keys)
qed

lemma reachable_keys:
  "process_lines pfloat pint pstate_init pre = Inr st \<Longrightarrow>
     map fst (metrics st) = [''OVERALL'', ''UPDATE'', ''READ'']"
  by (drule process_lines_keys) (simp add: pstate_init_def metrics_init_def)

lemma getitem_keys:
  "getitem m k = (if k \<in> set (map fst m) then Inr (the (map_of m k)) else Inl KeyError)"
  by (auto simp: getitem_def map_of_eq_None_iff dest: map_of_key split: option.splits)


lemma process_lines_raises_reachable:
  assumes "l \<in> set ls"
    and "\<And>pre st. process_lines pfloat pint st0 pre = Inr st \<Longrightarrow>
           \<exists>e. process_line pfloat pint st l = Inl e"
  shows "\<exists>e. process_lines pfloat pint st0 ls = Inl e"
proof -
  from assms(1) obtain pre post where ls: "ls = pre @ l # post"
    by (auto dest: split_list)
  show ?thesis
  proof (cases "process_lines pfloat pint st0 pre")
    case (Inl e)
    then show ?thesis by (simp add: ls process_lines_append)
  next
    case (Inr st')
    from assms(2) [OF Inr] obtain e where "process_line pfloat pint st' l = Inl e" by blast
    with Inr show ?thesis by (simp add: ls process_lines_append)
  qed
qed

lemma inexact_marker_step:
  assumes "startswith (strip l) ''[UPDATE]'' \<or> startswith (strip l) ''[READ]''"
    and "hd (split (strip l) '', '') \<noteq> ''[UPDATE]''"
    and "hd (split (strip l) '', '') \<noteq> ''[READ]''"
    and "3 \<le> length (split (strip l) '', '')"
    and "map fst (metrics st) = [''OVERALL'', ''UPDATE'', ''READ'']"
  shows "process_line pfloat pint st l =
           Inl (if pfloat (split (strip l) '', '' ! 2) = None then ValueError else KeyError)"
proof -
  have no: "\<not> startswith (strip l) ''[OVERALL]''"
    using assms(1) update_not_overall read_not_overall by blast
  have "slice_1_m1 (hd (split (strip l) '', '')) \<notin> set (map fst (metrics st))"
    using inexact_marker_section [OF assms(1-3)] by (simp add: assms(5))
  then have "getitem (metrics st) (slice_1_m1 (hd (split (strip l) '', ''))) = Inl KeyError"
    by (simp add: getitem_keys)
  with no assms(1,4) show ?thesis
    by (auto simp: process_line_def Let_def store_metric_def split: option.splits)
qed

text \<open>
  C10, as stated, at a line of fewer than three fields: \<^verbatim>\<open>[UPDATE] extra\<close> begins with
  the marker and its first field is not the bracketed tag, yet nothing is looked up,
  nothing is raised, and the file keeps the metrics accumulated before the line.
\<close>

theorem short_inexact_marker_counterexample:
  "startswith (strip ''[UPDATE] extra\<newline>'') ''[UPDATE]''
   \<and> hd (split (strip ''[UPDATE] extra\<newline>'') '', '') \<noteq> ''[UPDATE]''
   \<and> ''[UPDATE] extra\<newline>'' \<in> set short_inexact_lines
   \<and> map_option (\<lambda>m. map_of (the (map_of m ''UPDATE'')) ''Operations'')
        (fst (parse_ycsb_output dec_float dec_int (\<lambda>p. Readable short_inexact_lines)
                ''./sqlite_results.txt''))
      = Some (Some (PFloat 8))"
  by code_simp

text \<open>
  C10, amended. For every line that begins with \<^verbatim>\<open>[UPDATE]\<close> or \<^verbatim>\<open>[READ]\<close>, whose first
  field (split on comma and space) is not exactly the bracketed tag and that has at
  least three fields, the line raises in every state the parser can reach:
  \<^verbatim>\<open>ValueError\<close> when field 3 is not a float, which is evaluated first, and otherwise
  the \<^verbatim>\<open>KeyError\<close> of the section lookup. The blanket handler then reports the whole
  file absent, with the metrics of the earlier lines.
\<close>

theorem inexact_marker_aborts:
  assumes "fs filepath = Readable ls" and "l \<in> set ls"
    and "startswith (strip l) ''[UPDATE]'' \<or> startswith (strip l) ''[READ]''"
    and "hd (split (strip l) '', '') \<noteq> ''[UPDATE]''"
    and "hd (split (strip l) '', '') \<noteq> ''[READ]''"
    and "3 \<le> length (split (strip l) '', '')"
  shows "(\<exists>e. parse_ycsb_output pfloat pint fs filepath = (None, [WarnErrorParsing filepath e]))
       \<and> (\<forall>pre st. process_lines pfloat pint pstate_init pre = Inr st \<longrightarrow>
            process_line pfloat pint st l =
              Inl (if pfloat (split (strip l) '', '' ! 2) = None then ValueError else KeyError))"
proof -
  have step: "process_line pfloat pint st l =
              Inl (if pfloat (split (strip l) '', '' ! 2) = None then ValueError else KeyError)"
    if "process_lines pfloat pint pstate_init pre = Inr st" for pre st
    using inexact_marker_step [OF assms(3-6) reachable_keys [OF that]] .
  have "\<exists>e. process_lines pfloat pint pstate_init ls = Inl e"
    using assms(2) step by (intro process_lines_raises_reachable) blast+
  then have "\<exists>e. parse_ycsb_output pfloat pint fs filepath = (None, [WarnErrorParsing filepath e])"
    by (auto simp: parse_ycsb_output_def assms(1))
  with step show ?thesis by blast
qed

theorem inexact_marker_aborts_witness:
  "parse_ycsb_output dec_float dec_int (\<lambda>p. Readable inexact_lines) ''./sqlite_results.txt''
     = (None, [WarnErrorParsing ''./sqlite_results.txt'' KeyError])
   \<and> (case process_lines dec_float dec_int pstate_init
              [''[UPDATE], Operations, 8\<newline>'', ''1,5\<newline>''] of
         Inl e \<Rightarrow> None
       | Inr st \<Rightarrow> map_of (the (map_of (metrics st) ''UPDATE'')) ''LatencyDistribution'')
       = Some (PList [(1, 5)])"
proof -
  let ?l = "''[UPDATE] extra, label, 1.0\<newline>''"
  let ?pre = "[''[UPDATE], Operations, 8\<newline>'', ''1,5\<newline>'']"
  let ?fs = "\<lambda>p :: string. Readable inexact_lines"
  define st :: "rat pstate" where "st = \<lparr>current_section = Some ''UPDATE'', metrics =
     [(''OVERALL'', [(''RunTime(ms)'', PNone), (''Throughput(ops/sec)'', PNone)]),
      (''UPDATE'', [(''Operations'', PFloat 8), (''AverageLatency(us)'', PNone),
        (''MinLatency(us)'', PNone), (''MaxLatency(us)'', PNone),
        (''95thPercentileLatency(us)'', PNone), (''99thPercentileLatency(us)'', PNone),
        (''Return=OK'', PNone), (''LatencyDistribution'', PList [(1, 5)])]),
      (''READ'', section_init)]\<rparr>"
  have pre: "process_lines dec_float dec_int pstate_init ?pre = Inr st"
    unfolding st_def by code_simp
  have h1: "?fs ''./sqlite_results.txt'' = Readable inexact_lines" by simp
  have h2: "?l \<in> set inexact_lines" by (simp add: inexact_lines_def)
  have h3: "startswith (strip ?l) ''[UPDATE]'' \<or> startswith (strip ?l) ''[READ]''" by code_simp
  have h4: "hd (split (strip ?l) '', '') \<noteq> ''[UPDATE]''" by code_simp
  have h5: "hd (split (strip ?l) '', '') \<noteq> ''[READ]''" by code_simp
  have h6: "3 \<le> length (split (strip ?l) '', '')" by code_simp
  have fl: "dec_float (split (strip ?l) '', '' ! 2) = Some 1" by code_simp
  note t = inexact_marker_aborts [where fs = ?fs and filepath = "''./sqlite_results.txt''"
      and l = ?l and ls = inexact_lines and pfloat = dec_float and pint = dec_int,
      OF h1 h2 h3 h4 h5 h6]
  from t pre have "process_line dec_float dec_int st ?l
      = Inl (if dec_float (split (strip ?l) '', '' ! 2) = None then ValueError else KeyError)"
    by blast
  then have "process_line dec_float dec_int st ?l = Inl KeyError"
    by (simp add: fl)
  then have one: "process_lines dec_float dec_int st [?l] = Inl KeyError"
    by simp
  have "process_lines dec_float dec_int pstate_init (?pre @ [?l])
      = process_lines dec_float dec_int st [?l]"
    unfolding process_lines_append pre by simp
  also note one
  finally have "process_lines dec_float dec_int pstate_init (?pre @ [?l]) = Inl KeyError" .
  then have "parse_ycsb_output dec_float dec_int ?fs ''./sqlite_results.txt''
     = (None, [WarnErrorParsing ''./sqlite_results.txt'' KeyError])"
    by (simp add: parse_ycsb_output_def inexact_lines_def)
  moreover have "(case process_lines dec_float dec_int pstate_init ?pre of
         Inl e \<Rightarrow> None
       | Inr st \<Rightarrow> map_of (the (map_of (metrics st) ''UPDATE'')) ''LatencyDistribution'')
       = Some (PList [(1, 5)])"
    by code_simp
  ultimately show ?thesis by blast
qed

lemma non_marker_keeps_section:
  assumes "\<not> startswith (strip l) ''[UPDATE]''" and "\<not> startswith (strip l) ''[READ]''"
    and "process_line pfloat pint st l = Inr st'"
  shows "current_section st' = current_section st"
  using assms
  by (auto simp: process_line_def Let_def split: if_splits option.splits sum.splits)

lemma no_marker_no_section:
  assumes "\<forall>x \<in> set pre. \<not> startswith (strip x) ''[UPDATE]'' \<and> \<not> startswith (strip x) ''[READ]''"
    and "process_lines pfloat pint st pre = Inr st'"
  shows "current_section st' = current_section st"
  using assms
proof (induction pre arbitrary: st)
  case Nil
  then show ?case by simp
next
  case (Cons x pre)
  from Cons.prems(2) obtain st1 where
    one: "process_line pfloat pint st x = Inr st1" and
    rest: "process_lines pfloat pint st1 pre = Inr st'"
    by (auto split: sum.splits)
  from Cons.prems(1) one have "current_section st1 = current_section st"
    by (intro non_marker_keeps_section [where l = x]) auto
  moreover from Cons.IH [OF _ rest] Cons.prems(1) have "current_section st' = current_section st1"
    by simp
  ultimately show ?case by simp
qed

lemma unsectioned_row_ignored:
  assumes "current_section st = None" and "histogram_shaped (strip h)"
  shows "process_line pfloat pint st h = Inr st"
  using assms histogram_not_marker [OF assms(2)]
  by (simp add: process_line_def Let_def section_truthy_def)

lemma exact_marker_step:
  assumes "tag = ''UPDATE'' \<or> tag = ''READ''"
    and "hd (split (strip l) '', '') = ''['' @ tag @ '']''"
    and "map_of (metrics st) tag = Some d"
  shows "(\<forall>v. 3 \<le> length (split (strip l) '', '') \<and> pfloat (split (strip l) '', '' ! 2) = Some v \<longrightarrow>
            process_line pfloat pint st l =
              Inr \<lparr>current_section = Some tag,
                   metrics = AList.update tag
                     (AList.update (split (strip l) '', '' ! 1) (PFloat v) d) (metrics st)\<rparr>)
       \<and> (length (split (strip l) '', '') < 3 \<longrightarrow>
            process_line pfloat pint st l = Inr (st\<lparr>current_section := Some tag\<rparr>))"
proof -
  have pre: "startswith (strip l) (''['' @ tag @ '']'')"
    using first_field_prefix [of "strip l" "'', ''"] by (simp add: assms(2))
  then have marker: "startswith (strip l) ''[UPDATE]'' \<or> startswith (strip l) ''[READ]''"
    using assms(1) by auto
  then have no: "\<not> startswith (strip l) ''[OVERALL]''"
    using update_not_overall read_not_overall by blast
  have sect: "slice_1_m1 (hd (split (strip l) '', '')) = tag"
    using assms(1) by (auto simp: assms(2) slice_1_m1_def)
  show ?thesis
    using no marker
    by (auto simp: process_line_def Let_def sect store_metric_def getitem_def assms(3))
qed

text \<open>
  C6, as stated, at a line that begins with the marker and has three fields, the third
  a float: on \<^verbatim>\<open>[UPDATE] extra, label, 1.0\<close> the section becomes \<^verbatim>\<open>UPDATE] extr\<close>,
  nothing is stored and the line raises \<^verbatim>\<open>KeyError\<close>.
\<close>

theorem marker_step_counterexample:
  "startswith (strip ''[UPDATE] extra, label, 1.0\<newline>'') ''[UPDATE]''
   \<and> length (split (strip ''[UPDATE] extra, label, 1.0\<newline>'') '', '') = 3
   \<and> dec_float (split (strip ''[UPDATE] extra, label, 1.0\<newline>'') '', '' ! 2) = Some 1
   \<and> process_line dec_float dec_int pstate_init ''[UPDATE] extra, label, 1.0\<newline>''
       = Inl KeyError"
  by code_simp

text \<open>
  C6, amended. In every state the parser reaches, a line whose first field is exactly
  \<^verbatim>\<open>[UPDATE]\<close> or \<^verbatim>\<open>[READ]\<close> sets the current section to that tag; with at least three
  fields, the third a float, it stores that float under the key named by field 2 in
  the section's dictionary; with fewer than three fields it sets the section and
  stores nothing. A histogram-shaped line met before any line that begins with
  \<^verbatim>\<open>[UPDATE]\<close> or \<^verbatim>\<open>[READ]\<close> leaves the state as it is.
\<close>

theorem section_marker_line:
  assumes "process_lines pfloat pint pstate_init pre = Inr st"
  shows "(\<forall>tag. (tag = ''UPDATE'' \<or> tag = ''READ'')
            \<and> hd (split (strip l) '', '') = ''['' @ tag @ '']'' \<longrightarrow>
           (\<exists>d. map_of (metrics st) tag = Some d
              \<and> (\<forall>v. 3 \<le> length (split (strip l) '', '')
                     \<and> pfloat (split (strip l) '', '' ! 2) = Some v \<longrightarrow>
                   process_line pfloat pint st l =
                     Inr \<lparr>current_section = Some tag,
                          metrics = AList.update tag
                            (AList.update (split (strip l) '', '' ! 1) (PFloat v) d)
                            (metrics st)\<rparr>))
           \<and> (length (split (strip l) '', '') < 3 \<longrightarrow>
                process_line pfloat pint st l = Inr (st\<lparr>current_section := Some tag\<rparr>)))
       \<and> (\<forall>h. (\<forall>x \<in> set pre. \<not> startswith (strip x) ''[UPDATE]''
                               \<and> \<not> startswith (strip x) ''[READ]'')
              \<and> histogram_shaped (strip h) \<longrightarrow>
            process_line pfloat pint st h = Inr st)"
    (is "(\<forall>tag. ?H tag \<longrightarrow> ?Q tag) \<and> (\<forall>h. ?G h \<longrightarrow> ?R h)")
proof (rule conjI)
  have keys: "set (map fst (metrics st)) = {''OVERALL'', ''UPDATE'', ''READ''}"
    using reachable_keys [OF assms] by simp
  show "\<forall>tag. ?H tag \<longrightarrow> ?Q tag"
  proof (rule allI, rule impI)
    fix tag
    assume h: "?H tag"
    then have tag: "tag = ''UPDATE'' \<or> tag = ''READ''"
      and hd: "hd (split (strip l) '', '') = ''['' @ tag @ '']''"
      by simp_all
    from tag keys have "tag \<in> fst ` set (metrics st)" by auto
    then have "tag \<in> dom (map_of (metrics st))"
      by (simp only: dom_map_of_conv_image_fst)
    then obtain d where d: "map_of (metrics st) tag = Some d" by (blast dest: domD)
    from exact_marker_step [OF tag hd d, of pfloat pint]
    have "(\<forall>v. 3 \<le> length (split (strip l) '', '')
                     \<and> pfloat (split (strip l) '', '' ! 2) = Some v \<longrightarrow>
                   process_line pfloat pint st l =
                     Inr \<lparr>current_section = Some tag,
                          metrics = AList.update tag
                            (AList.update (split (strip l) '', '' ! 1) (PFloat v) d)
                            (metrics st)\<rparr>)"
      and short: "length (split (strip l) '', '') < 3 \<longrightarrow>
                process_line pfloat pint st l = Inr (st\<lparr>current_section := Some tag\<rparr>)"
      by (rule conjunct1, rule conjunct2)
    with d have "\<exists>d. map_of (metrics st) tag = Some d
              \<and> (\<forall>v. 3 \<le> length (split (strip l) '', '')
                     \<and> pfloat (split (strip l) '', '' ! 2) = Some v \<longrightarrow>
                   process_line pfloat pint st l =
                     Inr \<lparr>current_section = Some tag,
                          metrics = AList.update tag
                            (AList.update (split (strip l) '', '' ! 1) (PFloat v) d)
                            (metrics st)\<rparr>)"
      by (intro exI conjI)
    then show "?Q tag" using short by (rule conjI)
  qed
  show "\<forall>h. ?G h \<longrightarrow> ?R h"
  proof (rule allI, rule impI)
    fix h
    assume g: "?G h"
    then have pre: "\<forall>x \<in> set pre. \<not> startswith (strip x) ''[UPDATE]''
                               \<and> \<not> startswith (strip x) ''[READ]''"
      and shaped: "histogram_shaped (strip h)"
      by (rule conjunct1, rule conjunct2)
    from no_marker_no_section [OF pre assms] have "current_section st = None"
      by (simp add: pstate_init_def)
    then show "?R h" using shaped by (rule unsectioned_row_ignored)
  qed
qed

theorem section_marker_line_witness:
  "process_line dec_float dec_int pstate_init ''[UPDATE], Operations, 8\<newline>''
     = Inr \<lparr>current_section = Some ''UPDATE'',
            metrics = AList.update ''UPDATE''
              (AList.update ''Operations'' (PFloat 8) section_init) metrics_init\<rparr>
   \<and> process_line dec_float dec_int pstate_init ''[READ]\<newline>''
     = Inr (pstate_init\<lparr>current_section := Some ''READ''\<rparr>)
   \<and> process_line dec_float dec_int pstate_init ''1,5\<newline>'' = Inr pstate_init"
proof -
  let ?l1 = "''[UPDATE], Operations, 8\<newline>''"
  let ?l2 = "''[READ]\<newline>''"
  let ?h = "''1,5\<newline>''"
  have r: "process_lines dec_float dec_int pstate_init [] = Inr pstate_init" by simp
  note t = section_marker_line [where pfloat = dec_float and pint = dec_int and pre = "[]"
      and st = pstate_init, OF r]
  have p1: "(''UPDATE'' = ''UPDATE'' \<or> ''UPDATE'' = ''READ'')
      \<and> hd (split (strip ?l1) '', '') = ''['' @ ''UPDATE'' @ '']''" by code_simp
  have len1: "3 \<le> length (split (strip ?l1) '', '')
      \<and> dec_float (split (strip ?l1) '', '' ! 2) = Some 8" by code_simp
  have key1: "split (strip ?l1) '', '' ! 1 = ''Operations''" by code_simp
  from t [where l = ?l1, THEN conjunct1, THEN spec, THEN mp, OF p1, THEN conjunct1]
  obtain d where d: "map_of (metrics pstate_init) ''UPDATE'' = Some d"
    and s1: "\<forall>v. 3 \<le> length (split (strip ?l1) '', '')
                     \<and> dec_float (split (strip ?l1) '', '' ! 2) = Some v \<longrightarrow>
                   process_line dec_float dec_int pstate_init ?l1 =
                     Inr \<lparr>current_section = Some ''UPDATE'',
                          metrics = AList.update ''UPDATE''
                            (AList.update (split (strip ?l1) '', '' ! 1) (PFloat v) d)
                            (metrics pstate_init)\<rparr>"
    by blast
  have d': "d = section_init"
    using d by (simp add: pstate_init_def metrics_init_def)
  have m: "metrics (pstate_init :: rat pstate) = metrics_init" by (simp add: pstate_init_def)
  from s1 [THEN spec, THEN mp, OF len1]
  have a: "process_line dec_float dec_int pstate_init ?l1
     = Inr \<lparr>current_section = Some ''UPDATE'',
            metrics = AList.update ''UPDATE''
              (AList.update ''Operations'' (PFloat 8) section_init) metrics_init\<rparr>"
    by (simp only: key1 d' m)
  have p2: "(''READ'' = ''UPDATE'' \<or> ''READ'' = ''READ'')
      \<and> hd (split (strip ?l2) '', '') = ''['' @ ''READ'' @ '']''" by code_simp
  have len2: "length (split (strip ?l2) '', '') < 3" by code_simp
  from t [where l = ?l2, THEN conjunct1, THEN spec, THEN mp, OF p2, THEN conjunct2, THEN mp, OF len2]
  have b: "process_line dec_float dec_int pstate_init ?l2
     = Inr (pstate_init\<lparr>current_section := Some ''READ''\<rparr>)" .
  have sh: "histogram_shaped (strip ?h)" by code_simp
  have p3: "(\<forall>x \<in> set ([] :: string list). \<not> startswith (strip x) ''[UPDATE]''
                               \<and> \<not> startswith (strip x) ''[READ]'')
              \<and> histogram_shaped (strip ?h)"
    using sh by simp
  from t [where l = ?l1, THEN conjunct2, THEN spec, THEN mp, OF p3]
  have c: "process_line dec_float dec_int pstate_init ?h = Inr pstate_init" .
  from a b c show ?thesis by (intro conjI)
qed

section \<open>Properties of the plot selection\<close>






lemma select_step_zero:
  "zero_operations fbool r \<Longrightarrow> select_step fbool acc (db, r) = Inr acc"
  by (cases acc)
     (auto simp: zero_operations_def select_step_def getitem_def truthy_def
           split: option.splits pyval.splits)

lemma select_step_labels:
  "select_step fbool (labels, data) (db, r) = Inr (labels', data') \<Longrightarrow>
     labels' = labels \<or> (labels' = labels @ [db] \<and> \<not> zero_operations fbool r)"
  by (auto simp: zero_operations_def select_step_def getitem_def truthy_def Let_def
           split: option.splits pyval.splits if_splits)

lemma select_loop_excludes:
  "select_loop fbool (labels, data) items = Inr (labels', data') \<Longrightarrow>
     db \<notin> set labels \<Longrightarrow>
     \<forall>r. (db, r) \<in> set items \<longrightarrow> zero_operations fbool r \<Longrightarrow>
     db \<notin> set labels'"
proof (induction items arbitrary: labels data)
  case Nil
  then show ?case by simp
next
  case (Cons item items)
  obtain n r where item: "item = (n, r)" by (cases item)
  from Cons.prems(1) obtain l1 d1 where
    step: "select_step fbool (labels, data) (n, r) = Inr (l1, d1)" and
    rest: "select_loop fbool (l1, d1) items = Inr (labels', data')"
    by (auto simp: item split: sum.splits)
  from select_step_labels [OF step] Cons.prems(2,3) have "db \<notin> set l1"
    by (auto simp: item)
  with Cons.IH [OF rest] Cons.prems(3) show ?case by simp
qed

text \<open>
  C9. The selection tests the \<^verbatim>\<open>UPDATE\<close> operation count for truthiness: an entry
  whose count is \<^verbatim>\<open>0.0\<close> leaves the selection as it was, whatever its latency
  distribution, and the name of a database with such a record is not among the labels
  of the box plot.
\<close>

theorem zero_operations_excluded:
  assumes "\<forall>r. (db, r) \<in> set all_metrics \<longrightarrow> zero_operations fbool r"
  shows "(\<forall>r acc. (db, r) \<in> set all_metrics \<longrightarrow> select_step fbool acc (db, r) = Inr acc)
       \<and> (\<forall>labels data out.
            generate_plot fbool all_metrics output_image_path
              = Inr ((output_image_path, BoxPlot labels data), out)
            \<longrightarrow> db \<notin> set labels)"
proof -
  have "select_step fbool acc (db, r) = Inr acc" if "(db, r) \<in> set all_metrics" for r acc
    using assms that by (intro select_step_zero) blast
  moreover have "db \<notin> set labels"
    if "generate_plot fbool all_metrics output_image_path
              = Inr ((output_image_path, BoxPlot labels data), out)" for labels data out
  proof -
    from that have "select_loop fbool ([], []) all_metrics = Inr (labels, data)"
      by (auto simp: generate_plot_def split: sum.splits prod.splits if_splits)
    from select_loop_excludes [OF this _ assms] show ?thesis by simp
  qed
  ultimately show ?thesis by blast
qed

theorem zero_operations_excluded_witness:
  "generate_plot rat_bool (fst (aggregate dec_float dec_int sample_fs db_results_files)) plot_file
     = Inr ((plot_file, BoxPlot [''SQLite''] [[1, 1, 1, 1, 1, 2, 2, 2]]),
            [PlotGenerated plot_file])
   \<and> ''DuckDB'' \<notin> set [''SQLite'']
   \<and> map_option (\<lambda>r. map_option (\<lambda>m. map_of (the (map_of m ''UPDATE'')) ''LatencyDistribution'') r)
        (map_of (fst (aggregate dec_float dec_int sample_fs db_results_files)) ''DuckDB'')
     = Some (Some (Some (PList [(1, 5)])))"
proof -
  let ?all = "fst (aggregate dec_float dec_int sample_fs db_results_files)"
  have "list_all (\<lambda>item. fst item \<noteq> ''DuckDB'' \<or> zero_operations rat_bool (snd item)) ?all"
    by code_simp
  then have h: "\<forall>r. (''DuckDB'', r) \<in> set ?all \<longrightarrow> zero_operations rat_bool r"
    by (auto simp only: list_all_iff fst_conv snd_conv)
  have plot: "generate_plot rat_bool ?all plot_file
     = Inr ((plot_file, BoxPlot [''SQLite''] [[1, 1, 1, 1, 1, 2, 2, 2]]),
            [PlotGenerated plot_file])"
    by code_simp
  from zero_operations_excluded [OF h, where output_image_path = plot_file] plot
  have "''DuckDB'' \<notin> set [''SQLite'']" by blast
  moreover have "map_option (\<lambda>r. map_option (\<lambda>m. map_of (the (map_of m ''UPDATE'')) ''LatencyDistribution'') r)
        (map_of ?all ''DuckDB'')
     = Some (Some (Some (PList [(1, 5)])))"
    by code_simp
  ultimately show ?thesis using plot by blast
qed

section \<open>Properties of the Markdown report\<close>

text \<open>
  C3. The claim: a cell holds the field's value, or \<^verbatim>\<open>N/A\<close> when the record or the field
  is absent. The parser creates every key with the value \<^verbatim>\<open>None\<close>, so
  \<^verbatim>\<open>get(key, 'N/A')\<close> returns \<^verbatim>\<open>None\<close> for an absent field, never the default, and the
  format specification raises \<^verbatim>\<open>TypeError\<close>: the record parsed from an empty file ends
  the report after the table head, and the run on the sample files ends with the
  row of the first database whose record is present.
\<close>

theorem report_raises_on_absent_field:
  "parse_ycsb_output pfloat pint (\<lambda>p. Readable []) filepath = (Some metrics_init, [])
   \<and> generate_markdown_report ffmt path_exists [(db, Some metrics_init)]
         plot_image_path output_md_path
       = ((output_md_path, report_head), Inl TypeError)
   \<and> raised (main dec_float dec_int rat_bool ffmt sample_fs) = Some TypeError
   \<and> report_written (main dec_float dec_int rat_bool ffmt sample_fs)
       = Some (report_file, report_head @ [na_row ''CockroachDB''])"
proof -
  have a: "parse_ycsb_output pfloat pint (\<lambda>p. Readable []) filepath = (Some metrics_init, [])"
    by (simp add: parse_ycsb_output_def pstate_init_def)
  have b: "generate_markdown_report ffmt path_exists [(db, Some metrics_init)]
         plot_image_path output_md_path
       = ((output_md_path, report_head), Inl TypeError)"
    by (simp add: generate_markdown_report_def table_row_def metrics_init_def section_init_def
          getitem_def format_cell_def)
  have c: "raised (main dec_float dec_int rat_bool ffmt sample_fs) = Some TypeError"
    by code_simp
  have d: "report_written (main dec_float dec_int rat_bool ffmt sample_fs)
       = Some (report_file, report_head @ [na_row ''CockroachDB''])"
    by code_simp
  from a b c d show ?thesis by blast
qed

section \<open>The shape of a parsed record\<close>

lemma store_metric_update_section:
  assumes "store_metric m sect key v = Inr m'"
    and "map_of m ''UPDATE'' = Some u"
    and "map_of u ''Operations'' = Some a" and "map_of u ''LatencyDistribution'' = Some b"
  shows "\<exists>u' a' b'. map_of m' ''UPDATE'' = Some u'
           \<and> map_of u' ''Operations'' = Some a' \<and> map_of u' ''LatencyDistribution'' = Some b'"
  using assms
  by (auto simp: store_metric_def getitem_def update_conv' split: option.splits)

lemma append_latency_update_section:
  assumes "append_latency m sect p = Inr m'"
    and "map_of m ''UPDATE'' = Some u"
    and "map_of u ''Operations'' = Some a" and "map_of u ''LatencyDistribution'' = Some b"
  shows "\<exists>u' a' b'. map_of m' ''UPDATE'' = Some u'
           \<and> map_of u' ''Operations'' = Some a' \<and> map_of u' ''LatencyDistribution'' = Some b'"
  using assms
  by (auto simp: append_latency_def getitem_def update_conv' split: option.splits pyval.splits)

lemma has_update_keys_iff:
  "has_update_keys m \<longleftrightarrow>
     (\<exists>u a b. map_of m ''UPDATE'' = Some u
        \<and> map_of u ''Operations'' = Some a \<and> map_of u ''LatencyDistribution'' = Some b)"
  by (auto simp: has_update_keys_def split: option.splits)

lemma process_line_update_section:
  assumes "process_line pfloat pint st l = Inr st'" and "has_update_keys (metrics st)"
  shows "has_update_keys (metrics st')"
proof -
  from assms(2) obtain u a b where u: "map_of (metrics st) ''UPDATE'' = Some u"
    "map_of u ''Operations'' = Some a" "map_of u ''LatencyDistribution'' = Some b"
    by (auto simp: has_update_keys_iff)
  have s: "has_update_keys m'" if "store_metric m sect key v = Inr m'" "has_update_keys m"
    for m m' :: "'a metrics_dict" and sect key v
    using that store_metric_update_section [of m sect key v m']
    by (auto simp: has_update_keys_iff)
  have ap: "has_update_keys m'" if "append_latency m sect p = Inr m'" "has_update_keys m"
    for m m' :: "'a metrics_dict" and sect p
    using that append_latency_update_section [of m sect p m']
    by (auto simp: has_update_keys_iff)
  from assms show ?thesis
    by (auto simp: process_line_def Let_def dest: s ap
             split: if_splits option.splits sum.splits)
qed

lemma process_lines_update_section:
  "process_lines pfloat pint st ls = Inr st' \<Longrightarrow> has_update_keys (metrics st) \<Longrightarrow>
     has_update_keys (metrics st')"
proof (induction ls arbitrary: st)
  case Nil
  then show ?case by simp
next
  case (Cons l ls)
  then show ?case
    by (auto split: sum.splits dest: process_line_update_section)
qed

text \<open>
  Every record the parser returns has the three sections, in the order of their
  creation, and its \<^verbatim>\<open>UPDATE\<close> section has the keys the plot selection reads. The
  selection therefore never raises \<^verbatim>\<open>KeyError\<close> on a parsed record: it goes on, or
  it raises \<^verbatim>\<open>TypeError\<close> (the latency distribution overwritten by a float).
\<close>

theorem parsed_record_shape:
  assumes "parse_ycsb_output pfloat pint fs filepath = (Some m, w)"
  shows "map fst m = [''OVERALL'', ''UPDATE'', ''READ''] \<and> has_update_keys m
       \<and> (\<exists>acc'. select_step fbool acc (db, Some m) = Inr acc'
            \<or> select_step fbool acc (db, Some m) = Inl TypeError)"
proof -
  from assms obtain ls st where
    st: "process_lines pfloat pint pstate_init ls = Inr st" and m: "m = metrics st"
    by (auto simp: parse_ycsb_output_def split: file_status.splits sum.splits)
  have k: "map fst m = [''OVERALL'', ''UPDATE'', ''READ'']"
    unfolding m using st by (rule reachable_keys)
  have "has_update_keys (metrics (pstate_init :: 'a pstate))"
    by (simp add: has_update_keys_def pstate_init_def metrics_init_def section_init_def)
  with st have h: "has_update_keys m"
    unfolding m by (rule process_lines_update_section)
  then have "\<exists>acc'. select_step fbool acc (db, Some m) = Inr acc'
            \<or> select_step fbool acc (db, Some m) = Inl TypeError"
    by (cases acc)
       (auto simp: has_update_keys_iff select_step_def getitem_def Let_def split: pyval.splits)
  with k h show ?thesis by blast
qed

theorem parsed_record_shape_witness:
  "map fst (the (fst (parse_ycsb_output dec_float dec_int sample_fs ''./sqlite_results.txt'')))
     = [''OVERALL'', ''UPDATE'', ''READ'']
   \<and> has_update_keys
        (the (fst (parse_ycsb_output dec_float dec_int sample_fs ''./sqlite_results.txt'')))"
proof -
  let ?r = "parse_ycsb_output dec_float dec_int sample_fs ''./sqlite_results.txt''"
  have e: "?r = (Some (the (fst ?r)), [])" by code_simp
  from parsed_record_shape [where pfloat = dec_float and pint = dec_int and fs = sample_fs
      and filepath = "''./sqlite_results.txt''", OF e]
  show ?thesis by blast
qed

end
